theory Spec2Isabelle
  imports Main "HOL-Library.Word" "HOL-Library.Signed_Division"
begin

unbundle bit_operations_syntax

section \<open>The buffer protocol of the multiarray core (buffer.c)\<close>

subsection \<open>Errors, aborts and outcomes\<close>

text \<open>
  The C code reports failure by setting the interpreter's error indicator and returning
  \<open>-1\<close>. The indicator is a field of the state below; its values are named after the
  error kinds of the specification, one per message of the source:
  \<^item> \<open>UnsupportedLayout\<close>: ValueError "data types with sub-arrays cannot be exported as buffers";
  \<^item> \<open>InvalidFieldName\<close>: ValueError "invalid field name" and
    "':' is not an allowed character in buffer field names";
  \<^item> \<open>UnknownElementType\<close>: ValueError "unknown dtype code %d";
  \<^item> \<open>NotContiguous\<close>: ValueError "ndarray is not C contiguous", "ndarray is not
    Fortran contiguous", "ndarray is not contiguous";
  \<^item> \<open>NotSingleSegment\<close>: ValueError "ndarray is not single-segment" and
    "array is not a single segment";
  \<^item> \<open>NoSuchSegment\<close>: ValueError "accessing non-existing array segment";
  \<^item> \<open>NotWritable\<close>: ValueError "array cannot be accessed as a writeable buffer";
  \<^item> \<open>AllocationFailure\<close>: MemoryError "memory allocation failed".
\<close>

datatype error =
    UnsupportedLayout
  | InvalidFieldName
  | UnknownElementType
  | NotContiguous
  | NotSingleSegment
  | NoSuchSegment
  | NotWritable
  | AllocationFailure

text \<open>
  A call can also end the process instead of returning: a store or load through a null
  or dangling pointer (\<open>SegFault\<close>), or the failure of
  \<^verbatim>\<open>assert(descr->elsize % 4 == 0)\<close> in a build that compiles assertions in
  (\<open>AssertionFailed\<close>). Neither sets the error indicator or returns \<open>-1\<close>.
\<close>

datatype abort = SegFault | AssertionFailed

datatype 'a outcome = Returns 'a | Aborts abort

subsection \<open>The interpreter state seen by the encoder\<close>

text \<open>
  \<open>pyerr\<close> is the error indicator. \<open>alloc\<close> lists the answers the allocator will give
  to the coming \<^verbatim>\<open>malloc\<close> and \<^verbatim>\<open>realloc\<close> calls, in order
  (\<open>False\<close>: the call returns NULL); once the list is used up every call succeeds.
  \<open>ndebug\<close> holds whether the file was compiled with \<^verbatim>\<open>NDEBUG\<close>, which turns
  \<^verbatim>\<open>assert\<close> into nothing; no function changes it.
\<close>

record interp =
  pyerr :: "error option"
  alloc :: "bool list"
  ndebug :: bool

definition malloc :: "'a interp_scheme \<Rightarrow> bool \<times> 'a interp_scheme" where
  "malloc w = (case alloc w of [] \<Rightarrow> (True, w) | b # bs \<Rightarrow> (b, w\<lparr>alloc := bs\<rparr>))"

definition PyErr_SetString :: "error \<Rightarrow> 'a interp_scheme \<Rightarrow> 'a interp_scheme" where
  "PyErr_SetString e w = w\<lparr>pyerr := Some e\<rparr>"

subsection \<open>Element descriptors\<close>

text \<open>
  The type numbers the switch of \<^verbatim>\<open>_buffer_format_string\<close> names, together
  with the two other built-in type numbers (\<open>NPY_BOOL\<close>, \<open>NPY_VOID\<close>) and the
  user-defined ones, which all reach its \<^verbatim>\<open>default\<close> branch.
\<close>

datatype NPY_TYPES =
    NPY_BOOL | NPY_BYTE | NPY_UBYTE | NPY_SHORT | NPY_USHORT | NPY_INT | NPY_UINT
  | NPY_LONG | NPY_ULONG | NPY_LONGLONG | NPY_ULONGLONG
  | NPY_FLOAT | NPY_DOUBLE | NPY_LONGDOUBLE
  | NPY_CFLOAT | NPY_CDOUBLE | NPY_CLONGDOUBLE
  | NPY_OBJECT | NPY_STRING | NPY_UNICODE | NPY_VOID | NPY_USERDEF nat

text \<open>
  \<^verbatim>\<open>PyArray_Descr\<close>, with the members the file reads. \<open>subarray\<close> holds whether
  \<^verbatim>\<open>descr->subarray\<close> is non-null. \<open>names\<close> is \<open>None\<close> when
  \<^verbatim>\<open>descr->names\<close> is NULL (\<^verbatim>\<open>PyDataType_HASFIELDS\<close> is false); otherwise it
  lists, in the order of the \<^verbatim>\<open>names\<close> tuple, what the loop reads for each name:
  the bytes of the name (\<open>None\<close> when the name has no byte string, the case
  \<^verbatim>\<open>tmp == NULL || PyBytes_AsStringAndSize(...) < 0\<close>), the child descriptor
  and the offset stored for the name in the \<^verbatim>\<open>fields\<close> dictionary.
  \<open>buffer_format\<close> is the cached format string (\<open>None\<close>: NULL), with its
  terminating zero byte.
\<close>

datatype PyArray_Descr =
  Descr (type_num: NPY_TYPES) (byteorder: char) (elsize: int) (subarray: bool)
        (names: "(string option \<times> PyArray_Descr \<times> int) list option")
        (buffer_format: "string option")

subsection \<open>The format string translator\<close>

text \<open>
  \<^verbatim>\<open>_tmp_string\<close>. \<open>s\<close> is \<open>None\<close> for a NULL pointer, and otherwise holds the
  bytes written so far, \<^verbatim>\<open>s[0 .. pos-1]\<close>; the rest of the allocation is
  uninitialised and never read.
\<close>

record tmp_string =
  s :: "string option"
  allocated :: int
  pos :: int

text \<open>
  \<^verbatim>\<open>_append_char\<close>. The result of \<^verbatim>\<open>malloc(16)\<close> is not checked: when it is
  NULL the store \<^verbatim>\<open>s->s[s->pos] = c\<close> goes through a null pointer. A failed
  \<^verbatim>\<open>realloc\<close> sets MemoryError and returns \<open>-1\<close> without storing the character.
  (\<^verbatim>\<open>realloc\<close> is reached only with a non-null \<^verbatim>\<open>s->s\<close>: after the
  \<^verbatim>\<open>malloc\<close> branch \<^verbatim>\<open>pos\<close> is 0 and \<^verbatim>\<open>allocated\<close> is 16.)
\<close>

definition append_char ::
  "tmp_string \<Rightarrow> char \<Rightarrow> 'a interp_scheme \<Rightarrow> (int \<times> tmp_string \<times> 'a interp_scheme) outcome" where
  "append_char str c w =
    (let (str1, w1) =
       (if s str = None then
          (let (ok, w') = malloc w
           in (\<lparr>s = (if ok then Some [] else None), allocated = 16, pos = 0\<rparr>, w'))
        else (str, w))
     in
       if pos str1 \<ge> allocated str1 then
         (let (ok, w2) = malloc w1 in
          if \<not> ok then Returns (-1, str1, PyErr_SetString AllocationFailure w2)
          else
            (case s str1 of
               None \<Rightarrow> Aborts SegFault
             | Some cs \<Rightarrow>
                 Returns (0, \<lparr>s = Some (cs @ [c]), allocated = 2 * allocated str1,
                               pos = pos str1 + 1\<rparr>, w2)))
       else
         (case s str1 of
            None \<Rightarrow> Aborts SegFault
          | Some cs \<Rightarrow> Returns (0, str1\<lparr>s := Some (cs @ [c]), pos := pos str1 + 1\<rparr>, w1)))"

text \<open>
  \<^verbatim>\<open>_append_str\<close>. The C function has no \<^verbatim>\<open>return\<close> after its loop: when
  every character was appended, control reaches the closing brace and the value the
  caller receives is indeterminate. \<open>u\<close> stands for that value.
\<close>

fun append_str ::
  "int \<Rightarrow> tmp_string \<Rightarrow> string \<Rightarrow> 'a interp_scheme \<Rightarrow> (int \<times> tmp_string \<times> 'a interp_scheme) outcome" where
  "append_str u str [] w = Returns (u, str, w)"
| "append_str u str (c # cs) w =
     (case append_char str c w of
        Aborts a \<Rightarrow> Aborts a
      | Returns (r, str', w') \<Rightarrow>
          if r \<noteq> 0 then Returns (-1, str', w') else append_str u str' cs w')"

text \<open>\<^verbatim>\<open>PyOS_snprintf(buf, sizeof(buf), "%d", n)\<close>: the decimal digits of \<open>n\<close>.\<close>

definition digit_char :: "nat \<Rightarrow> char" where
  "digit_char d = ''0123456789'' ! d"

fun dec_digits :: "nat \<Rightarrow> string" where
  "dec_digits n = (if n < 10 then [digit_char n] else dec_digits (n div 10) @ [digit_char (n mod 10)])"

declare dec_digits.simps [simp del]

definition print_d :: "int \<Rightarrow> string" where
  "print_d n = (if n < 0 then CHR ''-'' # dec_digits (nat (- n)) else dec_digits (nat n))"

text \<open>
  The statement \<^verbatim>\<open>if (_append_char(str, c)) return -1; break;\<close> of the switch,
  followed by the function's final \<^verbatim>\<open>return 0\<close>; and the same with
  \<^verbatim>\<open>_append_str\<close>.
\<close>

definition emit_char ::
  "char \<Rightarrow> tmp_string \<Rightarrow> int \<Rightarrow> 'a interp_scheme \<Rightarrow> (int \<times> tmp_string \<times> int \<times> 'a interp_scheme) outcome" where
  "emit_char c str off w =
    (case append_char str c w of
       Aborts a \<Rightarrow> Aborts a
     | Returns (r, str', w') \<Rightarrow> Returns (if r \<noteq> 0 then -1 else 0, str', off, w'))"

definition emit_str ::
  "int \<Rightarrow> string \<Rightarrow> tmp_string \<Rightarrow> int \<Rightarrow> 'a interp_scheme \<Rightarrow> (int \<times> tmp_string \<times> int \<times> 'a interp_scheme) outcome" where
  "emit_str u cs str off w =
    (case append_str u str cs w of
       Aborts a \<Rightarrow> Aborts a
     | Returns (r, str', w') \<Rightarrow> Returns (if r \<noteq> 0 then -1 else 0, str', off, w'))"

text \<open>
  The last branch of \<^verbatim>\<open>_buffer_format_string\<close>: a descriptor without sub-array
  and without fields. C's \<^verbatim>\<open>/\<close> and \<^verbatim>\<open>%\<close> truncate towards zero
  (\<open>sdiv\<close>, \<open>smod\<close>). The assertion of the wide-string case sets no error and
  returns nothing: where it is compiled in and fails the process is aborted, and where
  it is compiled out the truncated quotient is printed.
\<close>

definition scalar_format ::
  "int \<Rightarrow> PyArray_Descr \<Rightarrow> tmp_string \<Rightarrow> int \<Rightarrow> 'a interp_scheme \<Rightarrow> (int \<times> tmp_string \<times> int \<times> 'a interp_scheme) outcome" where
  "scalar_format u descr str off w =
    (case (if byteorder descr = CHR ''<'' \<or> byteorder descr = CHR ''>'' \<or> byteorder descr = CHR ''=''
           then append_char str (byteorder descr) w else Returns (0, str, w)) of
       Aborts a \<Rightarrow> Aborts a
     | Returns (_, str1, w1) \<Rightarrow>
        (case type_num descr of
           NPY_BYTE \<Rightarrow> emit_char CHR ''b'' str1 off w1
         | NPY_UBYTE \<Rightarrow> emit_char CHR ''B'' str1 off w1
         | NPY_SHORT \<Rightarrow> emit_char CHR ''h'' str1 off w1
         | NPY_USHORT \<Rightarrow> emit_char CHR ''H'' str1 off w1
         | NPY_INT \<Rightarrow> emit_char CHR ''i'' str1 off w1
         | NPY_UINT \<Rightarrow> emit_char CHR ''I'' str1 off w1
         | NPY_LONG \<Rightarrow> emit_char CHR ''l'' str1 off w1
         | NPY_ULONG \<Rightarrow> emit_char CHR ''L'' str1 off w1
         | NPY_LONGLONG \<Rightarrow> emit_char CHR ''q'' str1 off w1
         | NPY_ULONGLONG \<Rightarrow> emit_char CHR ''Q'' str1 off w1
         | NPY_FLOAT \<Rightarrow> emit_char CHR ''f'' str1 off w1
         | NPY_DOUBLE \<Rightarrow> emit_char CHR ''d'' str1 off w1
         | NPY_LONGDOUBLE \<Rightarrow> emit_char CHR ''g'' str1 off w1
         | NPY_CFLOAT \<Rightarrow> emit_str u ''Zf'' str1 off w1
         | NPY_CDOUBLE \<Rightarrow> emit_str u ''Zd'' str1 off w1
         | NPY_CLONGDOUBLE \<Rightarrow> emit_str u ''Zg'' str1 off w1
         | NPY_STRING \<Rightarrow> emit_str u (print_d (elsize descr) @ ''s'') str1 off w1
         | NPY_UNICODE \<Rightarrow>
             if elsize descr smod 4 \<noteq> 0 \<and> \<not> ndebug w1 then Aborts AssertionFailed
             else emit_str u (print_d (elsize descr sdiv 4) @ ''w'') str1 off w1
         | NPY_OBJECT \<Rightarrow> emit_char CHR ''O'' str1 off w1
         | _ \<Rightarrow> Returns (-1, str1, off, PyErr_SetString UnknownElementType w1)))"

text \<open>
  The padding loop \<^verbatim>\<open>while (*offset < new_offset) { _append_char(str, 'x'); ++*offset; }\<close>.
  The result of \<^verbatim>\<open>_append_char\<close> is not looked at.
\<close>

function pad_loop ::
  "int \<Rightarrow> tmp_string \<Rightarrow> int \<Rightarrow> 'a interp_scheme \<Rightarrow> (tmp_string \<times> int \<times> 'a interp_scheme) outcome" where
  "pad_loop new_offset str off w =
    (if off < new_offset then
       (case append_char str CHR ''x'' w of
          Aborts a \<Rightarrow> Aborts a
        | Returns (_, str', w') \<Rightarrow> pad_loop new_offset str' (off + 1) w')
     else Returns (str, off, w))"
  by pat_completeness auto
termination
  by (relation "measure (\<lambda>(new_offset, str, off, w). nat (new_offset - off))") auto

declare pad_loop.simps [simp del]

text \<open>
  The loop over the bytes of a field name: a \<open>:\<close> sets ValueError and returns \<open>-1\<close>;
  any other byte is appended, the result of \<^verbatim>\<open>_append_char\<close> not looked at.
\<close>

fun name_loop ::
  "string \<Rightarrow> tmp_string \<Rightarrow> 'a interp_scheme \<Rightarrow> (int \<times> tmp_string \<times> 'a interp_scheme) outcome" where
  "name_loop [] str w = Returns (0, str, w)"
| "name_loop (p # ps) str w =
     (if p = CHR '':'' then Returns (-1, str, PyErr_SetString InvalidFieldName w)
      else
        (case append_char str p w of
           Aborts a \<Rightarrow> Aborts a
         | Returns (_, str', w') \<Rightarrow> name_loop ps str' w'))"

text \<open>
  \<^verbatim>\<open>_buffer_format_string(descr, str, offset)\<close>; \<open>off\<close> is \<^verbatim>\<open>*offset\<close>. The
  result is the returned int, the string, \<^verbatim>\<open>*offset\<close> and the interpreter
  state. \<open>fields_loop\<close> is the \<^verbatim>\<open>for\<close> loop over the names and the
  \<^verbatim>\<open>_append_char(str, '}')\<close> after it. In the loop the results of the recursive
  call for the child and of every \<^verbatim>\<open>_append_char\<close> are not looked at.
\<close>

fun buffer_format_string ::
  "int \<Rightarrow> PyArray_Descr \<Rightarrow> tmp_string \<Rightarrow> int \<Rightarrow> 'a interp_scheme \<Rightarrow> (int \<times> tmp_string \<times> int \<times> 'a interp_scheme) outcome"
and fields_loop ::
  "int \<Rightarrow> (string option \<times> PyArray_Descr \<times> int) list \<Rightarrow> tmp_string \<Rightarrow> int \<Rightarrow> 'a interp_scheme \<Rightarrow> (int \<times> tmp_string \<times> int \<times> 'a interp_scheme) outcome"
where
  "buffer_format_string u (Descr tn bo es sub flds bf) str off w =
    (if sub then Returns (-1, str, off, PyErr_SetString UnsupportedLayout w)
     else
       (case flds of
          Some fs \<Rightarrow>
            (case append_str u str ''T{'' w of
               Aborts a \<Rightarrow> Aborts a
             | Returns (_, str1, w1) \<Rightarrow> fields_loop u fs str1 off w1)
        | None \<Rightarrow> scalar_format u (Descr tn bo es sub flds bf) str off w))"
| "fields_loop u [] str off w =
    (case append_char str CHR ''}'' w of
       Aborts a \<Rightarrow> Aborts a
     | Returns (_, str', w') \<Rightarrow> Returns (0, str', off, w'))"
| "fields_loop u ((name, child, new_offset) # rest) str off w =
    (case pad_loop new_offset str off w of
       Aborts a \<Rightarrow> Aborts a
     | Returns (str1, off1, w1) \<Rightarrow>
        (case buffer_format_string u child str1 (off1 + elsize child) w1 of
           Aborts a \<Rightarrow> Aborts a
         | Returns (_, str2, off2, w2) \<Rightarrow>
            (case name of
               None \<Rightarrow> Returns (-1, str2, off2, PyErr_SetString InvalidFieldName w2)
             | Some p \<Rightarrow>
                (case append_char str2 CHR '':'' w2 of
                   Aborts a \<Rightarrow> Aborts a
                 | Returns (_, str3, w3) \<Rightarrow>
                    (case name_loop p str3 w3 of
                       Aborts a \<Rightarrow> Aborts a
                     | Returns (r, str4, w4) \<Rightarrow>
                        if r \<noteq> 0 then Returns (-1, str4, off2, w4)
                        else
                          (case append_char str4 CHR '':'' w4 of
                             Aborts a \<Rightarrow> Aborts a
                           | Returns (_, str5, w5) \<Rightarrow> fields_loop u rest str5 off2 w5))))))"

subsection \<open>Memory for the shape and stride arrays\<close>

text \<open>
  A pointer to \<^verbatim>\<open>Py_ssize_t\<close> is NULL or names a block of storage (an address) and
  an index into it. \<open>heap\<close> maps the live blocks to their contents; a freed block is
  no longer in it, and the allocator may hand its storage out again.
\<close>

datatype ptr = NULL | Ptr nat nat

fun ptr_add :: "ptr \<Rightarrow> nat \<Rightarrow> ptr" where
  "ptr_add NULL n = NULL"
| "ptr_add (Ptr b i) n = Ptr b (i + n)"

fun load :: "(nat \<Rightarrow> int list option) \<Rightarrow> ptr \<Rightarrow> nat \<Rightarrow> int option" where
  "load h NULL k = None"
| "load h (Ptr b i) k =
     (case h b of
        None \<Rightarrow> None
      | Some xs \<Rightarrow> if i + k < length xs then Some (xs ! (i + k)) else None)"

fun store :: "(nat \<Rightarrow> int list option) \<Rightarrow> ptr \<Rightarrow> nat \<Rightarrow> int \<Rightarrow> (nat \<Rightarrow> int list option) option" where
  "store h NULL k v = None"
| "store h (Ptr b i) k v =
     (case h b of
        None \<Rightarrow> None
      | Some xs \<Rightarrow> if i + k < length xs then Some (h(b \<mapsto> xs[i + k := v])) else None)"

definition nth_opt :: "'a list \<Rightarrow> nat \<Rightarrow> 'a option" where
  "nth_opt xs k = (if k < length xs then Some (xs ! k) else None)"

subsection \<open>The array object, its cache and the exported view\<close>

text \<open>\<^verbatim>\<open>_buffer_data\<close>, the per-array cache behind \<^verbatim>\<open>self->buffer_info\<close>.\<close>

record buffer_data =
  cache_format :: "string option"
  cache_nd :: nat
  cache_strides :: ptr
  cache_shape :: ptr

text \<open>
  The array. The macros of the array headers that the file applies to it are not part
  of the file; the record holds what each of them yields for the array, as the
  interface the specification lists for a source buffer:
  \<open>data\<close> (\<^verbatim>\<open>PyArray_DATA\<close>), \<open>nbytes\<close> (\<^verbatim>\<open>PyArray_NBYTES\<close>),
  \<open>itemsize\<close> (\<^verbatim>\<open>PyArray_ITEMSIZE\<close>), \<open>nd\<close> (\<^verbatim>\<open>PyArray_NDIM\<close>),
  \<open>dimensions\<close> (\<^verbatim>\<open>PyArray_DIMS\<close>), \<open>strides\<close> (\<^verbatim>\<open>PyArray_STRIDES\<close>),
  \<open>descr\<close> (\<^verbatim>\<open>PyArray_DESCR\<close>), \<open>c_contiguous\<close> and \<open>f_contiguous\<close>
  (\<^verbatim>\<open>PyArray_CHKFLAGS\<close> with \<^verbatim>\<open>NPY_C_CONTIGUOUS\<close> and
  \<^verbatim>\<open>NPY_F_CONTIGUOUS\<close>), \<open>onesegment\<close> (\<^verbatim>\<open>PyArray_ISONESEGMENT\<close>) and
  \<open>writeable\<close> (\<^verbatim>\<open>PyArray_ISWRITEABLE\<close>, \<^verbatim>\<open>PyArray_CHKFLAGS\<close> with
  \<^verbatim>\<open>WRITEABLE\<close>). \<open>ob_refcnt\<close> is the reference count and \<open>buffer_info\<close> the
  cache (\<open>None\<close>: NULL).
\<close>

record PyArrayObject =
  ob_refcnt :: nat
  data :: nat
  nbytes :: int
  itemsize :: int
  nd :: nat
  dimensions :: "int list"
  strides :: "int list"
  descr :: PyArray_Descr
  c_contiguous :: bool
  f_contiguous :: bool
  onesegment :: bool
  writeable :: bool
  buffer_info :: "buffer_data option"

text \<open>
  \<^verbatim>\<open>Py_buffer\<close>. \<open>view_obj\<close> holds whether \<^verbatim>\<open>view->obj\<close> points to the
  exporting array.
\<close>

record Py_buffer =
  view_buf :: nat
  view_obj :: bool
  view_len :: int
  view_itemsize :: int
  view_readonly :: bool
  view_ndim :: nat
  view_format :: "string option"
  view_shape :: ptr
  view_strides :: ptr
  view_suboffsets :: ptr
  view_internal :: ptr

text \<open>
  The whole state: the interpreter state, the heap of blocks, and the array.
  \<open>next_block\<close> is the first block the allocator has never handed out. Which
  storage \<^verbatim>\<open>malloc\<close> hands out is the C library's choice; \<open>reuse\<close> holds it: for
  each allocation of a block to come, the block the allocator would hand out again.
  That block is the result if it has been handed out before and is not live, and a
  block never used before is the result otherwise, or when \<open>reuse\<close> is exhausted.
\<close>

record machine = interp +
  heap :: "nat \<Rightarrow> int list option"
  next_block :: nat
  reuse :: "nat list"
  self :: PyArrayObject

text \<open>
  \<^verbatim>\<open>malloc\<close> of a block of \<open>n\<close> \<^verbatim>\<open>Py_ssize_t\<close>, and \<^verbatim>\<open>free\<close>.
  Freeing anything but the start of a live block is undefined in C and ends the model's
  run.
\<close>

definition malloc_block :: "nat \<Rightarrow> machine \<Rightarrow> ptr \<times> machine" where
  "malloc_block n m =
    (let (ok, m1) = malloc m in
     if ok then
       (let m2 = m1\<lparr>reuse := tl (reuse m1)\<rparr> in
        case reuse m1 of
          b # bs \<Rightarrow>
            if b < next_block m1 \<and> heap m1 b = None
            then (Ptr b 0, m2\<lparr>heap := (heap m1)(b \<mapsto> replicate n 0)\<rparr>)
            else (Ptr (next_block m1) 0,
                  m2\<lparr>heap := (heap m1)(next_block m1 \<mapsto> replicate n 0),
                     next_block := next_block m1 + 1\<rparr>)
        | [] \<Rightarrow>
            (Ptr (next_block m1) 0,
             m2\<lparr>heap := (heap m1)(next_block m1 \<mapsto> replicate n 0),
                next_block := next_block m1 + 1\<rparr>))
     else (NULL, m1))"

fun free :: "ptr \<Rightarrow> machine \<Rightarrow> machine outcome" where
  "free NULL m = Returns m"
| "free (Ptr b i) m =
     (if i = 0 \<and> heap m b \<noteq> None then Returns (m\<lparr>heap := (heap m)(b := None)\<rparr>)
      else Aborts SegFault)"

text \<open>
  The request flags of the buffer protocol, with the values the Python headers give
  them (\<^verbatim>\<open>PyBUF_STRIDED\<close> is \<^verbatim>\<open>PyBUF_STRIDES | PyBUF_WRITABLE\<close>).
\<close>

definition PyBUF_WRITABLE :: "32 word" where "PyBUF_WRITABLE = 0x0001"
definition PyBUF_FORMAT :: "32 word" where "PyBUF_FORMAT = 0x0004"
definition PyBUF_ND :: "32 word" where "PyBUF_ND = 0x0008"
definition PyBUF_STRIDES :: "32 word" where "PyBUF_STRIDES = 0x0010 OR PyBUF_ND"
definition PyBUF_C_CONTIGUOUS :: "32 word" where "PyBUF_C_CONTIGUOUS = 0x0020 OR PyBUF_STRIDES"
definition PyBUF_F_CONTIGUOUS :: "32 word" where "PyBUF_F_CONTIGUOUS = 0x0040 OR PyBUF_STRIDES"
definition PyBUF_ANY_CONTIGUOUS :: "32 word" where "PyBUF_ANY_CONTIGUOUS = 0x0080 OR PyBUF_STRIDES"
definition PyBUF_STRIDED :: "32 word" where "PyBUF_STRIDED = PyBUF_STRIDES OR PyBUF_WRITABLE"

subsection \<open>The legacy single-segment accessors\<close>

text \<open>
  \<^verbatim>\<open>array_getreadbuf\<close> and \<^verbatim>\<open>array_getwritebuf\<close>: the returned length or
  \<open>-1\<close>, the value stored in \<^verbatim>\<open>*ptrptr\<close> (\<open>None\<close> when nothing is stored
  or NULL is), and the state.
\<close>

definition array_getreadbuf :: "machine \<Rightarrow> int \<Rightarrow> int \<times> nat option \<times> machine" where
  "array_getreadbuf m segment =
    (if segment \<noteq> 0 then (-1, None, PyErr_SetString NoSuchSegment m)
     else if onesegment (self m) then (nbytes (self m), Some (data (self m)), m)
     else (-1, None, PyErr_SetString NotSingleSegment m))"

definition array_getwritebuf :: "machine \<Rightarrow> int \<Rightarrow> int \<times> nat option \<times> machine" where
  "array_getwritebuf m segment =
    (if writeable (self m) then array_getreadbuf m segment
     else (-1, None, PyErr_SetString NotWritable m))"

subsection \<open>Retrieving buffers\<close>

text \<open>
  Lines 270 to 280 of \<^verbatim>\<open>array_getbuffer\<close>: the cache is allocated on the first
  request. The result of \<^verbatim>\<open>malloc\<close> is not checked before
  \<^verbatim>\<open>cache->nd = 0\<close>.
\<close>

definition get_cache :: "machine \<Rightarrow> (buffer_data \<times> machine) outcome" where
  "get_cache m =
    (case buffer_info (self m) of
       None \<Rightarrow>
         (let (ok, m1) = malloc m in
          if \<not> ok then Aborts SegFault
          else
            (let cache = \<lparr>cache_format = None, cache_nd = 0, cache_strides = NULL, cache_shape = NULL\<rparr>
             in Returns (cache, m1\<lparr>self := (self m1)\<lparr>buffer_info := Some cache\<rparr>\<rparr>)))
     | Some cache \<Rightarrow> Returns (cache, m))"

fun set_buffer_format :: "string option \<Rightarrow> PyArray_Descr \<Rightarrow> PyArray_Descr" where
  "set_buffer_format f (Descr tn bo es sub flds bf) = Descr tn bo es sub flds f"

text \<open>
  Lines 308 to 323: the format string. It is computed only while the descriptor has none
  cached; a non-zero result of \<^verbatim>\<open>_buffer_format_string\<close> is the
  \<^verbatim>\<open>goto fail\<close>. The result of appending the terminating zero byte is not
  looked at.
\<close>

definition export_format ::
  "int \<Rightarrow> machine \<Rightarrow> Py_buffer \<Rightarrow> 32 word \<Rightarrow> (int \<times> Py_buffer \<times> machine) outcome" where
  "export_format u m view flags =
    (if flags AND PyBUF_FORMAT = PyBUF_FORMAT then
       (if buffer_format (descr (self m)) = None then
          (case buffer_format_string u (descr (self m)) \<lparr>s = None, allocated = 0, pos = 0\<rparr> 0 m of
             Aborts a \<Rightarrow> Aborts a
           | Returns (r, fmt, off, m1) \<Rightarrow>
               if r \<noteq> 0 then Returns (-1, view, m1)
               else
                 (case append_char fmt (CHR 0x00) m1 of
                    Aborts a \<Rightarrow> Aborts a
                  | Returns (_, fmt', m2) \<Rightarrow>
                      Returns (0, view\<lparr>view_format := s fmt'\<rparr>,
                        m2\<lparr>self := (self m2)\<lparr>descr := set_buffer_format (s fmt') (descr (self m2))\<rparr>\<rparr>)))
        else Returns (0, view\<lparr>view_format := buffer_format (descr (self m))\<rparr>, m))
     else Returns (0, view\<lparr>view_format := None\<rparr>, m))"

text \<open>
  Lines 329 to 340: the comparison of the cached snapshot with the array, from
  dimension \<open>k\<close> on. \<^verbatim>\<open>||\<close> reads the strides only when the extents agree.
\<close>

function shape_changed_loop :: "machine \<Rightarrow> buffer_data \<Rightarrow> nat \<Rightarrow> bool outcome" where
  "shape_changed_loop m cache k =
    (if k < nd (self m) then
       (case (load (heap m) (cache_shape cache) k, nth_opt (dimensions (self m)) k) of
          (Some cs, Some d) \<Rightarrow>
            if cs \<noteq> d then Returns True
            else
              (case (load (heap m) (cache_strides cache) k, nth_opt (strides (self m)) k) of
                 (Some ct, Some st) \<Rightarrow>
                   if ct \<noteq> st then Returns True else shape_changed_loop m cache (k + 1)
               | _ \<Rightarrow> Aborts SegFault)
        | _ \<Rightarrow> Aborts SegFault)
     else Returns False)"
  by pat_completeness auto
termination
  by (relation "measure (\<lambda>(m, cache, k). nd (self m) - k)") auto

declare shape_changed_loop.simps [simp del]

text \<open>Lines 350 to 353: the extents and strides are copied into the new block.\<close>

function copy_loop :: "machine \<Rightarrow> buffer_data \<Rightarrow> nat \<Rightarrow> machine outcome" where
  "copy_loop m cache k =
    (if k < nd (self m) then
       (case nth_opt (dimensions (self m)) k of
          None \<Rightarrow> Aborts SegFault
        | Some d \<Rightarrow>
           (case store (heap m) (cache_shape cache) k d of
              None \<Rightarrow> Aborts SegFault
            | Some h1 \<Rightarrow>
               (case nth_opt (strides (self m)) k of
                  None \<Rightarrow> Aborts SegFault
                | Some st \<Rightarrow>
                   (case store h1 (cache_strides cache) k st of
                      None \<Rightarrow> Aborts SegFault
                    | Some h2 \<Rightarrow> copy_loop (m\<lparr>heap := h2\<rparr>) cache (k + 1)))))
     else Returns m)"
  by pat_completeness auto
termination
  by (relation "measure (\<lambda>(m, cache, k). nd (self m) - k)") auto

declare copy_loop.simps [simp del]

text \<open>
  Lines 343 to 354: the old block is freed, then the new one is allocated
  (\<open>2 * nd\<close> elements; the result of \<^verbatim>\<open>malloc\<close> is not checked) and filled.
  \<^verbatim>\<open>cache->shape + nd\<close> on a NULL \<^verbatim>\<open>cache->shape\<close> is NULL when \<open>nd\<close> is
  0; when it is not, the first store of the loop goes through the null
  \<^verbatim>\<open>cache->shape\<close>.
\<close>

definition refresh :: "machine \<Rightarrow> buffer_data \<Rightarrow> (buffer_data \<times> machine) outcome" where
  "refresh m cache =
    (case (if cache_shape cache \<noteq> NULL then free (cache_shape cache) m else Returns m) of
       Aborts a \<Rightarrow> Aborts a
     | Returns m1 \<Rightarrow>
        (let (p, m2) = malloc_block (2 * nd (self m1)) m1;
             cache' = cache\<lparr>cache_nd := nd (self m2), cache_shape := p,
                             cache_strides := ptr_add p (nd (self m2))\<rparr>;
             m3 = m2\<lparr>self := (self m2)\<lparr>buffer_info := Some cache'\<rparr>\<rparr>
         in
           (case copy_loop m3 cache' 0 of
              Aborts a \<Rightarrow> Aborts a
            | Returns m4 \<Rightarrow> Returns (cache', m4))))"

text \<open>Lines 325 to 368: shape and strides of the view.\<close>

definition export_strided ::
  "machine \<Rightarrow> buffer_data \<Rightarrow> Py_buffer \<Rightarrow> 32 word \<Rightarrow> (int \<times> Py_buffer \<times> machine) outcome" where
  "export_strided m cache view flags =
    (if flags AND PyBUF_STRIDED = PyBUF_STRIDED then
       (case (if cache_nd cache \<noteq> nd (self m) then Returns True
              else shape_changed_loop m cache 0) of
          Aborts a \<Rightarrow> Aborts a
        | Returns shape_changed \<Rightarrow>
           (case (if cache_strides cache = NULL \<or> shape_changed then refresh m cache
                  else Returns (cache, m)) of
              Aborts a \<Rightarrow> Aborts a
            | Returns (cache', m') \<Rightarrow>
                Returns (0, view\<lparr>view_ndim := nd (self m'), view_shape := cache_shape cache',
                                  view_strides := cache_strides cache'\<rparr>, m')))
     else if onesegment (self m) then
       Returns (0, view\<lparr>view_ndim := 0, view_shape := NULL, view_strides := NULL\<rparr>, m)
     else Returns (-1, view, PyErr_SetString NotSingleSegment m))"

text \<open>
  \<^verbatim>\<open>array_getbuffer(obj, view, flags)\<close>. The result is the returned int, the view
  as the call leaves it (\<open>None\<close>: the caller passed NULL) and the state.
\<close>

definition array_getbuffer ::
  "int \<Rightarrow> machine \<Rightarrow> Py_buffer option \<Rightarrow> 32 word \<Rightarrow> (int \<times> Py_buffer option \<times> machine) outcome" where
  "array_getbuffer u m view flags =
    (case view of
       None \<Rightarrow> Returns (-1, None, m)
     | Some v \<Rightarrow>
        (case get_cache m of
           Aborts a \<Rightarrow> Aborts a
         | Returns (cache, m1) \<Rightarrow>
            (let v1 = v\<lparr>view_format := None, view_shape := NULL\<rparr> in
             if flags AND PyBUF_C_CONTIGUOUS = PyBUF_C_CONTIGUOUS \<and> \<not> c_contiguous (self m1)
             then Returns (-1, Some v1, PyErr_SetString NotContiguous m1)
             else if flags AND PyBUF_F_CONTIGUOUS = PyBUF_F_CONTIGUOUS \<and> \<not> f_contiguous (self m1)
             then Returns (-1, Some v1, PyErr_SetString NotContiguous m1)
             else if flags AND PyBUF_ANY_CONTIGUOUS = PyBUF_ANY_CONTIGUOUS \<and> \<not> onesegment (self m1)
             then Returns (-1, Some v1, PyErr_SetString NotContiguous m1)
             else
               (let v2 = v1\<lparr>view_buf := data (self m1), view_suboffsets := NULL,
                             view_itemsize := itemsize (self m1),
                             view_readonly := (\<not> writeable (self m1)),
                             view_internal := NULL, view_len := nbytes (self m1)\<rparr>
                in
                  (case export_format u m1 v2 flags of
                     Aborts a \<Rightarrow> Aborts a
                   | Returns (r, v3, m2) \<Rightarrow>
                      if r \<noteq> 0 then Returns (-1, Some v3, m2)
                      else
                        (case export_strided m2 cache v3 flags of
                           Aborts a \<Rightarrow> Aborts a
                         | Returns (r', v4, m3) \<Rightarrow>
                            if r' \<noteq> 0 then Returns (-1, Some v4, m3)
                            else
                              Returns (0, Some (v4\<lparr>view_obj := True\<rparr>),
                                m3\<lparr>self := (self m3)\<lparr>ob_refcnt := ob_refcnt (self m3) + 1\<rparr>\<rparr>)))))))"

text \<open>\<^verbatim>\<open>_array_dealloc_buffer_info\<close>, called when the array is destroyed.\<close>

definition array_dealloc_buffer_info :: "machine \<Rightarrow> machine outcome" where
  "array_dealloc_buffer_info m =
    (case buffer_info (self m) of
       None \<Rightarrow> Returns m
     | Some cache \<Rightarrow>
        (case (if cache_shape cache \<noteq> NULL then free (cache_shape cache) m else Returns m) of
           Aborts a \<Rightarrow> Aborts a
         | Returns m1 \<Rightarrow> Returns (m1\<lparr>self := (self m1)\<lparr>buffer_info := None\<rparr>\<rparr>)))"

section \<open>Notions used in the statements\<close>

text \<open>
  The allocator never fails: none of the answers it has in store is \<open>False\<close>.
\<close>

definition alloc_ok :: "'a interp_scheme \<Rightarrow> bool" where
  "alloc_ok w = (False \<notin> set (alloc w))"

text \<open>The bytes a \<^verbatim>\<open>_tmp_string\<close> holds (none while its pointer is NULL).\<close>

definition contents :: "tmp_string \<Rightarrow> string" where
  "contents str = (case s str of None \<Rightarrow> [] | Some cs \<Rightarrow> cs)"

text \<open>
  The byte-order marker of a descriptor: its byte-order character when that is one of
  \<open><\<close>, \<open>>\<close>, \<open>=\<close> (little, big, native), nothing otherwise (\<open>|\<close>, not applicable).
\<close>

definition order_mark :: "PyArray_Descr \<Rightarrow> string" where
  "order_mark d = (if byteorder d \<in> {CHR ''<'', CHR ''>'', CHR ''=''} then [byteorder d] else [])"

text \<open>
  The type-code table as the specification's section 6 words it, for a type number and
  an element size; \<open>None\<close> for a type the table does not cover. The wide-character
  unit is 4 bytes.
\<close>

fun type_code_table :: "NPY_TYPES \<Rightarrow> int \<Rightarrow> string option" where
  "type_code_table NPY_BYTE n = Some ''b''"
| "type_code_table NPY_UBYTE n = Some ''B''"
| "type_code_table NPY_SHORT n = Some ''h''"
| "type_code_table NPY_USHORT n = Some ''H''"
| "type_code_table NPY_INT n = Some ''i''"
| "type_code_table NPY_UINT n = Some ''I''"
| "type_code_table NPY_LONG n = Some ''l''"
| "type_code_table NPY_ULONG n = Some ''L''"
| "type_code_table NPY_LONGLONG n = Some ''q''"
| "type_code_table NPY_ULONGLONG n = Some ''Q''"
| "type_code_table NPY_FLOAT n = Some ''f''"
| "type_code_table NPY_DOUBLE n = Some ''d''"
| "type_code_table NPY_LONGDOUBLE n = Some ''g''"
| "type_code_table NPY_CFLOAT n = Some ''Zf''"
| "type_code_table NPY_CDOUBLE n = Some ''Zd''"
| "type_code_table NPY_CLONGDOUBLE n = Some ''Zg''"
| "type_code_table NPY_OBJECT n = Some ''O''"
| "type_code_table NPY_STRING n = Some (print_d n @ ''s'')"
| "type_code_table NPY_UNICODE n = (if 4 dvd n then Some (print_d (n div 4) @ ''w'') else None)"
| "type_code_table _ n = None"

text \<open>The type numbers whose code the switch appends with \<^verbatim>\<open>_append_str\<close>.\<close>

fun via_append_str :: "NPY_TYPES \<Rightarrow> bool" where
  "via_append_str NPY_CFLOAT = True"
| "via_append_str NPY_CDOUBLE = True"
| "via_append_str NPY_CLONGDOUBLE = True"
| "via_append_str NPY_STRING = True"
| "via_append_str NPY_UNICODE = True"
| "via_append_str _ = False"

text \<open>
  Two interpreter states agree on everything but the error indicator and the
  allocator's answers.
\<close>

definition frame :: "'a interp_scheme \<Rightarrow> 'a interp_scheme \<Rightarrow> bool" where
  "frame w w' = (interp.more w' = interp.more w)"

subsection \<open>Concrete inputs\<close>

text \<open>
  An interpreter state with no error set, an allocator that never fails and assertions
  compiled in, and the
  \<^verbatim>\<open>_tmp_string fmt = {0,0,0}\<close> that \<^verbatim>\<open>array_getbuffer\<close> starts from.
\<close>

definition w_init :: interp where
  "w_init = \<lparr>pyerr = None, alloc = [], ndebug = False\<rparr>"

definition fmt_init :: tmp_string where
  "fmt_init = \<lparr>s = None, allocated = 0, pos = 0\<rparr>"

text \<open>
  The record of the round-trip scenario: an unsigned byte \<open>a\<close> at offset 0 and a double
  \<open>b\<close> at offset 8, element size 16; \<open>bo\<close> is the byte order of the double.
\<close>

definition ubyte_double_record :: "char \<Rightarrow> PyArray_Descr" where
  "ubyte_double_record bo =
     Descr NPY_VOID CHR ''|'' 16 False
       (Some [(Some ''a'', Descr NPY_UBYTE CHR ''|'' 1 False None None, 0),
              (Some ''b'', Descr NPY_DOUBLE bo 8 False None None, 8)]) None"

text \<open>A record whose only field \<open>a\<close>, at offset 0, is a sub-array of 8 bytes.\<close>

definition subarray_field_record :: PyArray_Descr where
  "subarray_field_record =
     Descr NPY_VOID CHR ''|'' 8 False
       (Some [(Some ''a'', Descr NPY_VOID CHR ''|'' 8 True None None, 0)]) None"

text \<open>
  A writeable, contiguous one-dimensional array of two elements of the given descriptor
  that has not been exported yet; the state that holds it, with an empty heap and an
  allocator that never fails and never hands freed storage out again; and a zeroed
  \<^verbatim>\<open>Py_buffer\<close>.
\<close>

definition array_of :: "PyArray_Descr \<Rightarrow> PyArrayObject" where
  "array_of d =
     \<lparr>ob_refcnt = 1, data = 4096, nbytes = 2 * elsize d, itemsize = elsize d, nd = 1,
      dimensions = [2], strides = [elsize d], descr = d,
      c_contiguous = True, f_contiguous = True, onesegment = True, writeable = True,
      buffer_info = None\<rparr>"

definition machine_of :: "PyArrayObject \<Rightarrow> machine" where
  "machine_of a =
     \<lparr>pyerr = None, alloc = [], ndebug = False, heap = (\<lambda>b. None), next_block = 0,
      reuse = [], self = a\<rparr>"

definition view_init :: Py_buffer where
  "view_init =
     \<lparr>view_buf = 0, view_obj = False, view_len = 0, view_itemsize = 0, view_readonly = False,
      view_ndim = 0, view_format = None, view_shape = NULL, view_strides = NULL,
      view_suboffsets = NULL, view_internal = NULL\<rparr>"

definition double_descr :: PyArray_Descr where
  "double_descr = Descr NPY_DOUBLE CHR ''='' 8 False None None"

text \<open>A descriptor of doubles with its format string cached, and a cache that holds no snapshot.\<close>

definition double_cached :: PyArray_Descr where
  "double_cached = Descr NPY_DOUBLE CHR ''='' 8 False None (Some (''=d'' @ [CHR 0x00]))"

definition empty_cache :: buffer_data where
  "empty_cache = \<lparr>cache_format = None, cache_nd = 0, cache_strides = NULL, cache_shape = NULL\<rparr>"

text \<open>
  The view an export without shape and strides hands out for \<open>array_of\<close> a descriptor of
  8 bytes, with the given format string.
\<close>

definition plain_view :: "string option \<Rightarrow> Py_buffer" where
  "plain_view f =
     \<lparr>view_buf = 4096, view_obj = True, view_len = 16, view_itemsize = 8, view_readonly = False,
      view_ndim = 0, view_format = f, view_shape = NULL, view_strides = NULL,
      view_suboffsets = NULL, view_internal = NULL\<rparr>"

subsection \<open>Heap and snapshot invariants\<close>

text \<open>
  The allocator's invariant: blocks from \<open>next_block\<close> on have not been handed out, so
  none of them is live.
\<close>

definition heap_wf :: "machine \<Rightarrow> bool" where
  "heap_wf m = (\<forall>b. next_block m \<le> b \<longrightarrow> heap m b = None)"

text \<open>
  Element \<open>k\<close> of the cached shape and stride arrays can be read and equals the array's
  extent and stride \<open>k\<close>; and the snapshot is current: it has the array's dimension
  count and agrees with it in every dimension.
\<close>

definition matches :: "(nat \<Rightarrow> int list option) \<Rightarrow> PyArrayObject \<Rightarrow> buffer_data \<Rightarrow> nat \<Rightarrow> bool" where
  "matches h a c k =
    (\<exists>x y. load h (cache_shape c) k = Some x \<and> nth_opt (dimensions a) k = Some x
         \<and> load h (cache_strides c) k = Some y \<and> nth_opt (strides a) k = Some y)"






section \<open>Properties of the translator\<close>

subsection \<open>The allocator\<close>

lemma malloc_ok: "alloc_ok w \<Longrightarrow> malloc w = (True, w\<lparr>alloc := tl (alloc w)\<rparr>)"
  by (cases "alloc w") (auto simp: malloc_def alloc_ok_def)

lemma alloc_ok_tl: "alloc_ok w \<Longrightarrow> alloc_ok (w\<lparr>alloc := tl (alloc w)\<rparr>)"
  by (cases "alloc w") (auto simp: alloc_ok_def)

lemma alloc_ok_pyerr [simp]: "alloc_ok (w\<lparr>pyerr := e\<rparr>) = alloc_ok w"
  by (simp add: alloc_ok_def)

lemma alloc_ok_w_init [simp]: "alloc_ok w_init"
  by (simp add: alloc_ok_def w_init_def)

subsection \<open>Appending when the allocator does not fail\<close>

lemma append_char_ok:
  assumes "alloc_ok w"
  shows "\<exists>str' w'. append_char str c w = Returns (0, str', w') \<and> s str' = Some (contents str @ [c])
           \<and> alloc_ok w' \<and> pyerr w' = pyerr w"
  using assms alloc_ok_tl[OF assms] alloc_ok_tl[OF alloc_ok_tl[OF assms]]
  by (cases "s str") (auto simp: append_char_def malloc_ok contents_def Let_def)

lemma append_str_ok:
  "alloc_ok w \<Longrightarrow> \<exists>str' w'. append_str u str cs w = Returns (u, str', w') \<and> contents str' = contents str @ cs
           \<and> alloc_ok w' \<and> pyerr w' = pyerr w"
proof (induction cs arbitrary: str w)
  case Nil
  then show ?case by simp
next
  case (Cons c cs)
  from append_char_ok[OF Cons.prems, of str c] obtain str1 w1 where
    a: "append_char str c w = Returns (0, str1, w1)" "s str1 = Some (contents str @ [c])"
       "alloc_ok w1" "pyerr w1 = pyerr w" by blast
  from Cons.IH[OF a(3), of str1] obtain str2 w2 where
    b: "append_str u str1 cs w1 = Returns (u, str2, w2)" "contents str2 = contents str1 @ cs"
       "alloc_ok w2" "pyerr w2 = pyerr w1" by blast
  from a(2) have "contents str1 = contents str @ [c]" by (simp add: contents_def)
  with a b show ?case by simp
qed

lemma emit_char_ok:
  assumes "alloc_ok w"
  shows "\<exists>str' w'. emit_char c str off w = Returns (0, str', off, w') \<and> contents str' = contents str @ [c]
           \<and> alloc_ok w' \<and> pyerr w' = pyerr w"
  using append_char_ok[OF assms, of str c] by (auto simp: emit_char_def contents_def)

lemma emit_str_ok:
  assumes "alloc_ok w"
  shows "\<exists>str' w'. emit_str u cs str off w = Returns (if u \<noteq> 0 then -1 else 0, str', off, w')
           \<and> contents str' = contents str @ cs \<and> alloc_ok w' \<and> pyerr w' = pyerr w"
  using append_str_ok[OF assms, of u str cs] by (auto simp: emit_str_def)


lemma append_char_s: "append_char str c w = Returns (r, str', w') \<Longrightarrow> s str' \<noteq> None"
  by (auto simp: append_char_def Let_def split: if_splits prod.splits option.splits)

subsection \<open>C's truncating division by the wide-character unit\<close>

lemma sdiv4: "(4 * n :: int) sdiv 4 = n" "(4 * n :: int) smod 4 = 0"
  by (simp_all add: signed_divide_int_def signed_modulo_int_def abs_mult sgn_mult mult_sgn_abs)

lemma dvd4_sdiv: "4 dvd (n::int) \<Longrightarrow> n sdiv 4 = n div 4 \<and> n smod 4 = 0"
  using sdiv4 by (auto simp: dvd_def)


subsection \<open>Descriptors without fields\<close>

lemma buffer_format_string_subarray:
  "subarray d \<Longrightarrow>
   buffer_format_string u d str off w = Returns (-1, str, off, PyErr_SetString UnsupportedLayout w)"
  by (cases d) simp

lemma buffer_format_string_scalar:
  "\<not> subarray d \<Longrightarrow> names d = None \<Longrightarrow>
   buffer_format_string u d str off w = scalar_format u d str off w"
  by (cases d) simp

text \<open>
  With an allocator that does not fail, the last branch appends the byte-order marker
  and the code of the table, whatever \<open>u\<close> is; it returns \<open>0\<close> for the codes it
  appends with \<^verbatim>\<open>_append_char\<close>, and \<open>0\<close> or \<open>-1\<close> according to \<open>u\<close> for
  those it appends with \<^verbatim>\<open>_append_str\<close>.
\<close>

lemma scalar_format_ok:
  assumes ok: "alloc_ok w" and code: "type_code_table (type_num d) (elsize d) = Some code"
  shows "\<exists>str' w'. scalar_format u d str off w =
            Returns (if via_append_str (type_num d) \<and> u \<noteq> 0 then -1 else 0, str', off, w')
           \<and> contents str' = contents str @ order_mark d @ code \<and> alloc_ok w' \<and> pyerr w' = pyerr w"
proof -
  have "\<exists>str1 w1. (if byteorder d = CHR ''<'' \<or> byteorder d = CHR ''>'' \<or> byteorder d = CHR ''=''
           then append_char str (byteorder d) w else Returns (0, str, w)) = Returns (0, str1, w1)
         \<and> contents str1 = contents str @ order_mark d \<and> alloc_ok w1 \<and> pyerr w1 = pyerr w"
    using append_char_ok[OF ok, of str "byteorder d"] ok
    by (auto simp: order_mark_def contents_def)
  then obtain str1 w1 where m:
    "(if byteorder d = CHR ''<'' \<or> byteorder d = CHR ''>'' \<or> byteorder d = CHR ''=''
           then append_char str (byteorder d) w else Returns (0, str, w)) = Returns (0, str1, w1)"
    "contents str1 = contents str @ order_mark d" "alloc_ok w1" "pyerr w1 = pyerr w"
    by blast
  note ec = emit_char_ok[OF m(3), of _ str1 off] and es = emit_str_ok[OF m(3), of u _ str1 off]
  show ?thesis
    unfolding scalar_format_def m(1)
    using code m(2,4)
    by (cases "type_num d")
       (use ec es dvd4_sdiv[of "elsize d"] in \<open>auto split: if_splits\<close>)
qed

lemma supported_scalar_format:
  assumes "\<not> subarray d" and "names d = None" and "alloc_ok w"
    and "type_code_table (type_num d) (elsize d) = Some code"
  shows "\<exists>str' w'. buffer_format_string u d fmt_init off w =
            Returns (if via_append_str (type_num d) \<and> u \<noteq> 0 then -1 else 0, str', off, w')
           \<and> s str' = Some (order_mark d @ code) \<and> pyerr w' = pyerr w"
proof -
  from scalar_format_ok[OF assms(3,4), of u fmt_init off] obtain str' w' where
    r: "scalar_format u d fmt_init off w =
            Returns (if via_append_str (type_num d) \<and> u \<noteq> 0 then -1 else 0, str', off, w')"
       "contents str' = contents fmt_init @ order_mark d @ code" "pyerr w' = pyerr w"
    by blast
  have "code \<noteq> []" using assms(4) by (cases "type_num d") (auto split: if_splits)
  with r(2) have "s str' = Some (order_mark d @ code)"
    by (auto simp: contents_def fmt_init_def split: option.splits)
  with r show ?thesis by (auto simp: buffer_format_string_scalar[OF assms(1,2)])
qed

subsection \<open>The translator touches only the error indicator and the allocator\<close>

lemma frame_refl [simp]: "frame w w"
  by (simp add: frame_def)


lemma frame_upd [simp]: "frame w (w'\<lparr>alloc := x\<rparr>) = frame w w'" "frame w (w'\<lparr>pyerr := y\<rparr>) = frame w w'"
  "frame w (PyErr_SetString e w') = frame w w'"
  by (simp_all add: frame_def PyErr_SetString_def)









section \<open>Properties of the exporter\<close>

lemma get_cache_Returns:
  assumes "get_cache m = Returns (c, m1)"
  shows "self m1 = (self m)\<lparr>buffer_info := Some c\<rparr>" and "heap m1 = heap m"
    and "next_block m1 = next_block m" and "pyerr m1 = pyerr m"
    and "buffer_info (self m) = None \<Longrightarrow> cache_nd c = 0 \<and> cache_strides c = NULL \<and> cache_shape c = NULL"
    and "buffer_info (self m) \<noteq> None \<Longrightarrow> buffer_info (self m) = Some c \<and> m1 = m"
  using assms
  by (auto simp: get_cache_def malloc_def Let_def split: option.splits list.splits if_splits)

lemma buffer_format_set [simp]: "buffer_format (set_buffer_format f d) = f"
  by (cases d) simp




lemma export_format_cached:
  "buffer_format (descr (self m)) = Some f \<Longrightarrow> fl AND PyBUF_FORMAT = PyBUF_FORMAT \<Longrightarrow>
   export_format u m v fl = Returns (0, v\<lparr>view_format := Some f\<rparr>, m)"
  by (simp add: export_format_def)

lemma export_format_sets:
  assumes "export_format u m v fl = Returns (0, v', m')" and "fl AND PyBUF_FORMAT = PyBUF_FORMAT"
  shows "\<exists>f. buffer_format (descr (self m')) = Some f \<and> view_format v' = Some f"
  using assms unfolding export_format_def
  by (auto split: if_splits outcome.splits dest!: append_char_s)



lemma copy_loop_frame:
  "copy_loop m c k = Returns m' \<Longrightarrow>
     self m' = self m \<and> pyerr m' = pyerr m \<and> alloc m' = alloc m \<and> next_block m' = next_block m"
proof (induction m c k rule: copy_loop.induct)
  case (1 m c k)
  show ?case
  proof (cases "k < nd (self m)")
    case True
    with "1.prems" obtain d h1 st h2 where
      a: "nth_opt (dimensions (self m)) k = Some d" "store (heap m) (cache_shape c) k d = Some h1"
         "nth_opt (strides (self m)) k = Some st" "store h1 (cache_strides c) k st = Some h2"
         "copy_loop (m\<lparr>heap := h2\<rparr>) c (k + 1) = Returns m'"
      by (subst (asm) copy_loop.simps) (auto split: option.splits)
    from "1.IH"[OF True a(1,2,3,4,5)] show ?thesis by simp
  next
    case False
    with "1.prems" show ?thesis by (subst (asm) copy_loop.simps) simp
  qed
qed

lemma free_Returns:
  assumes "free p m = Returns m'"
  shows "self m' = self m \<and> pyerr m' = pyerr m \<and> alloc m' = alloc m \<and> next_block m' = next_block m"
    and "p = NULL \<and> m' = m
         \<or> (\<exists>b. p = Ptr b 0 \<and> heap m b \<noteq> None \<and> heap m' = (heap m)(b := None))"
  using assms by (cases p; auto split: if_splits)+

lemma malloc_block_frame:
  assumes "malloc_block n m = (p, m')"
  shows "self m' = self m" and "pyerr m' = pyerr m"
    and "p = NULL \<and> heap m' = heap m \<and> next_block m' = next_block m
         \<or> p = Ptr (next_block m) 0 \<and> heap m' = (heap m)(next_block m \<mapsto> replicate n 0)
            \<and> next_block m' = next_block m + 1
         \<or> (\<exists>b. b < next_block m \<and> heap m b = None \<and> p = Ptr b 0
                \<and> heap m' = (heap m)(b \<mapsto> replicate n 0) \<and> next_block m' = next_block m)"
  using assms
  by (auto simp: malloc_block_def malloc_def Let_def split: list.splits if_splits prod.splits)


lemma heap_wf_self [simp]: "heap_wf (m\<lparr>self := a\<rparr>) = heap_wf m"
  by (simp add: heap_wf_def)

lemma refresh_self:
  assumes "refresh m c = Returns (c', m')"
  shows "self m' = (self m)\<lparr>buffer_info := Some c'\<rparr>" and "pyerr m' = pyerr m"
proof -
  from assms obtain m1 where
    f: "(if cache_shape c \<noteq> NULL then free (cache_shape c) m else Returns m) = Returns m1"
    unfolding refresh_def by (auto split: outcome.splits)
  then have m1: "self m1 = self m" "pyerr m1 = pyerr m"
    by (auto split: if_splits dest: free_Returns(1))
  obtain p m2 where mb: "malloc_block (2 * nd (self m1)) m1 = (p, m2)"
    by (cases "malloc_block (2 * nd (self m1)) m1") auto
  note m2 = malloc_block_frame(1,2)[OF mb]
  from assms f mb obtain m4 where
    cl: "copy_loop (m2\<lparr>self := (self m2)\<lparr>buffer_info := Some c'\<rparr>\<rparr>) c' 0 = Returns m4"
      and r: "m' = m4"
      "c' = c\<lparr>cache_nd := nd (self m2), cache_shape := p, cache_strides := ptr_add p (nd (self m2))\<rparr>"
    unfolding refresh_def by (auto simp: Let_def split: outcome.splits)
  from copy_loop_frame[OF cl] have "self m4 = (self m2)\<lparr>buffer_info := Some c'\<rparr> \<and> pyerr m4 = pyerr m2"
    by simp
  with r m1 m2 show "self m' = (self m)\<lparr>buffer_info := Some c'\<rparr>" and "pyerr m' = pyerr m"
    by simp_all
qed


lemma export_strided_self:
  assumes "export_strided m c v fl = Returns (r, v', m')"
  shows "\<exists>bi. self m' = (self m)\<lparr>buffer_info := bi\<rparr>" and "view_format v' = view_format v"
    and "r = 0 \<or> r = -1"
proof -
  have "(\<exists>bi. self m' = (self m)\<lparr>buffer_info := bi\<rparr>) \<and> view_format v' = view_format v \<and> (r = 0 \<or> r = -1)"
  proof (cases "fl AND PyBUF_STRIDED = PyBUF_STRIDED")
    case True
    with assms obtain ch c' where
      r: "(if cache_strides c = NULL \<or> ch then refresh m c else Returns (c, m)) = Returns (c', m')"
        "r = 0" "view_format v' = view_format v"
      unfolding export_strided_def by (auto split: outcome.splits)
    have "\<exists>bi. self m' = (self m)\<lparr>buffer_info := bi\<rparr>"
    proof (cases "cache_strides c = NULL \<or> ch")
      case True
      with r(1) have "refresh m c = Returns (c', m')" by simp
      from refresh_self(1)[OF this] show ?thesis by blast
    next
      case False
      with r(1) have "m' = m" by simp
      then have "self m' = (self m)\<lparr>buffer_info := buffer_info (self m)\<rparr>" by simp
      then show ?thesis by blast
    qed
    with r show ?thesis by simp
  next
    case False
    with assms have "self m' = self m \<and> view_format v' = view_format v \<and> (r = 0 \<or> r = -1)"
      unfolding export_strided_def by (auto simp: PyErr_SetString_def split: if_splits)
    then have "self m' = (self m)\<lparr>buffer_info := buffer_info (self m)\<rparr>
        \<and> view_format v' = view_format v \<and> (r = 0 \<or> r = -1)" by simp
    then show ?thesis by blast
  qed
  then show "\<exists>bi. self m' = (self m)\<lparr>buffer_info := bi\<rparr>" and "view_format v' = view_format v"
    and "r = 0 \<or> r = -1" by blast+
qed

lemma array_getbuffer_success:
  assumes "array_getbuffer u m (Some v) fl = Returns (0, vo, m1)"
  obtains c ma vb vc mb vd mc where
    "get_cache m = Returns (c, ma)"
    "export_format u ma vb fl = Returns (0, vc, mb)"
    "export_strided mb c vc fl = Returns (0, vd, mc)"
    "vo = Some (vd\<lparr>view_obj := True\<rparr>)"
    "m1 = mc\<lparr>self := (self mc)\<lparr>ob_refcnt := ob_refcnt (self mc) + 1\<rparr>\<rparr>"
  using assms unfolding array_getbuffer_def
  by (auto simp: Let_def split: outcome.splits if_splits)



subsection \<open>The snapshot\<close>






lemma matches_cong:
  "dimensions a' = dimensions a \<Longrightarrow> strides a' = strides a \<Longrightarrow> matches h a' c k = matches h a c k"
  by (simp add: matches_def)











section \<open>The claims\<close>

lemmas export_defs =
  array_getbuffer_def get_cache_def export_format_def export_strided_def refresh_def
  malloc_block_def Let_def
  machine_of_def array_of_def view_init_def double_descr_def
  PyBUF_FORMAT_def PyBUF_STRIDED_def PyBUF_STRIDES_def PyBUF_ND_def PyBUF_WRITABLE_def
  PyBUF_C_CONTIGUOUS_def PyBUF_F_CONTIGUOUS_def PyBUF_ANY_CONTIGUOUS_def

lemmas encode_defs =
  fmt_init_def w_init_def append_char_def malloc_def pad_loop.simps scalar_format_def
  emit_char_def emit_str_def PyErr_SetString_def

lemma replicate_2: "replicate 2 x = [x, x]"
  by (simp add: numeral_2_eq_2)

lemmas loop_simps = shape_changed_loop.simps copy_loop.simps nth_opt_def

text \<open>
  C1. Claim: for every read-only buffer, an export whose flags demand write access fails
  with NotWritable and returns no view.

  \<^verbatim>\<open>array_getbuffer\<close> never tests \<^verbatim>\<open>PyBUF_WRITABLE\<close>: for a read-only,
  single-segment array and the flags \<^verbatim>\<open>PyBUF_WRITABLE\<close> it returns \<open>0\<close> with a
  view marked read-only and no error set. The legacy accessor
  \<^verbatim>\<open>array_getwritebuf\<close> of the same file does refuse the same array with
  NotWritable.
\<close>

theorem C1_readonly_export_not_refused:
  "(case array_getbuffer u (machine_of ((array_of double_descr)\<lparr>writeable := False\<rparr>)) (Some view_init) PyBUF_WRITABLE of
      Aborts a \<Rightarrow> False
    | Returns (r, v, m) \<Rightarrow> r = 0 \<and> map_option view_readonly v = Some True \<and> pyerr m = None)
   \<and> (case array_getwritebuf (machine_of ((array_of double_descr)\<lparr>writeable := False\<rparr>)) 0 of
        (r, p, m) \<Rightarrow> r = -1 \<and> pyerr m = Some NotWritable)"
  by (simp add: export_defs array_getwritebuf_def PyErr_SetString_def malloc_def)

text \<open>
  C2. Claim: for every descriptor that contains a sub-array field, at the top level or
  as a child of a record, encode fails with UnsupportedLayout and no format string is
  produced or cached.

  The code does this for a descriptor that is itself a sub-array
  (\<open>buffer_format_string_subarray\<close>). For a child it does not: the loop over the
  fields does not look at the result of the recursive call. For the record whose only
  field \<open>a\<close> is a sub-array, the translator sets the error, goes on, and returns \<open>0\<close>
  with the string \<open>T{:a:}\<close>; an export that asks for the format succeeds, hands that
  string out and caches it on the descriptor, with the error indicator still set.
\<close>

theorem C2_nested_subarray_accepted:
  "buffer_format_string u subarray_field_record fmt_init 0 w_init =
     Returns (0, \<lparr>s = Some ''T{:a:}'', allocated = 16, pos = 6\<rparr>, 8,
              \<lparr>pyerr = Some UnsupportedLayout, alloc = [], ndebug = False\<rparr>)
   \<and> (case array_getbuffer u (machine_of (array_of subarray_field_record)) (Some view_init) PyBUF_FORMAT of
         Aborts a \<Rightarrow> False
       | Returns (r, v, m) \<Rightarrow>
           r = 0 \<and> map_option view_format v = Some (Some (''T{:a:}'' @ [CHR 0x00]))
           \<and> buffer_format (descr (self m)) = Some (''T{:a:}'' @ [CHR 0x00])
           \<and> pyerr m = Some UnsupportedLayout)"
  by (simp add: export_defs encode_defs subarray_field_record_def)

text \<open>
  C3. Claim: the record with an unsigned byte \<open>a\<close> at offset 0 and a double \<open>b\<close> at
  offset 8, element size 16, encodes to exactly \<open>T{B:a:xxxxxxxd:b:}\<close>.

  As stated this fails: the translator writes the byte-order character of a field's
  descriptor in front of its type code whenever that character is \<open><\<close>, \<open>>\<close> or
  \<open>=\<close>, so a double of native order \<open>=\<close> gives \<open>T{B:a:xxxxxxx=d:b:}\<close> (the
  counterexample). Amended: for every byte order of the two fields, when the allocator
  does not fail, the translator, started on the empty string at offset 0, returns \<open>0\<close>
  with exactly \<open>T{\<close>, the byte's order mark, \<open>B:a:xxxxxxx\<close>, the double's order mark,
  \<open>d:b:}\<close>, the offset advanced to 16 and the error indicator untouched; an order
  mark is the descriptor's byte-order character if that is \<open><\<close>, \<open>>\<close> or \<open>=\<close>, and
  empty otherwise.
\<close>

theorem C3_record_format_with_order_marks:
  assumes "alloc_ok w"
  shows "\<exists>str' w'. buffer_format_string u
     (Descr tn bo 16 False (Some [(Some ''a'', Descr NPY_UBYTE boa 1 False None bfa, 0),
                                    (Some ''b'', Descr NPY_DOUBLE bob 8 False None bfb, 8)]) bf)
     fmt_init 0 w = Returns (0, str', 16, w')
     \<and> s str' = Some (''T{'' @ order_mark (Descr NPY_UBYTE boa 1 False None bfa) @ ''B:a:xxxxxxx''
                        @ order_mark (Descr NPY_DOUBLE bob 8 False None bfb) @ ''d:b:}'')
     \<and> pyerr w' = pyerr w"
proof -
  note ok = assms alloc_ok_tl[OF assms] alloc_ok_tl[OF alloc_ok_tl[OF assms]]
  note defs = fmt_init_def append_char_def malloc_ok alloc_ok_tl pad_loop.simps scalar_format_def
    emit_char_def order_mark_def
  show ?thesis
  proof (cases "boa = CHR ''<'' \<or> boa = CHR ''>'' \<or> boa = CHR ''=''")
    case a: True
    show ?thesis
    proof (cases "bob = CHR ''<'' \<or> bob = CHR ''>'' \<or> bob = CHR ''=''")
      case True
      with a ok show ?thesis by (simp add: defs)
    next
      case False
      with a ok show ?thesis by (simp add: defs)
    qed
  next
    case a: False
    show ?thesis
    proof (cases "bob = CHR ''<'' \<or> bob = CHR ''>'' \<or> bob = CHR ''=''")
      case True
      with a ok show ?thesis by (simp add: defs)
    next
      case False
      with a ok show ?thesis by (simp add: defs)
    qed
  qed
qed

theorem C3_record_format_with_order_marks_witness:
  "alloc_ok w_init
   \<and> (\<exists>str' w'. buffer_format_string 0 (ubyte_double_record CHR ''<'') fmt_init 0 w_init = Returns (0, str', 16, w')
        \<and> s str' = Some ''T{B:a:xxxxxxx<d:b:}'' \<and> pyerr w' = pyerr w_init)
   \<and> (\<exists>str' w'. buffer_format_string 0 (ubyte_double_record CHR ''|'') fmt_init 0 w_init = Returns (0, str', 16, w')
        \<and> s str' = Some ''T{B:a:xxxxxxxd:b:}'' \<and> pyerr w' = pyerr w_init)"
  using C3_record_format_with_order_marks [of w_init 0 NPY_VOID "CHR ''|''" "CHR ''|''" None "CHR ''<''" None None]
        C3_record_format_with_order_marks [of w_init 0 NPY_VOID "CHR ''|''" "CHR ''|''" None "CHR ''|''" None None]
  by (simp add: ubyte_double_record_def order_mark_def)

theorem C3_native_double_counterexample:
  "buffer_format_string 0 (ubyte_double_record CHR ''='') fmt_init 0 w_init =
     Returns (0, \<lparr>s = Some ''T{B:a:xxxxxxx=d:b:}'', allocated = 32, pos = 19\<rparr>, 16, w_init)
   \<and> ''T{B:a:xxxxxxx=d:b:}'' \<noteq> ''T{B:a:xxxxxxxd:b:}''"
  by (simp add: ubyte_double_record_def encode_defs)

text \<open>
  C4. Claim: if an allocation fails while the shape/stride cache grows, the export
  aborts with AllocationFailure and the previously cached state is left untouched.

  The result of \<^verbatim>\<open>malloc\<close> for the snapshot is not checked, and the old snapshot
  is freed before the new one is allocated. On a first export the failed allocation
  ends in a store through a null pointer. After an export has cached a snapshot, a
  failed allocation on the next refresh does the same once the old snapshot is freed;
  and for an array that has become zero-dimensional the call even returns \<open>0\<close>, with
  no error set, the old snapshot freed and the cache changed.
\<close>

theorem C4_snapshot_allocation_unchecked:
  "array_getbuffer u ((machine_of (array_of double_descr))\<lparr>alloc := [True, False]\<rparr>) (Some view_init) PyBUF_STRIDED
     = Aborts SegFault
   \<and> (case array_getbuffer u (machine_of (array_of double_descr)) (Some view_init) PyBUF_STRIDED of
        Aborts a \<Rightarrow> False
      | Returns (r1, v1, m1) \<Rightarrow>
          r1 = 0 \<and> heap m1 0 = Some [2, 8]
          \<and> buffer_info (self m1) = Some \<lparr>cache_format = None, cache_nd = 1, cache_strides = Ptr 0 1, cache_shape = Ptr 0 0\<rparr>
          \<and> array_getbuffer u (m1\<lparr>alloc := [False], self := (self m1)\<lparr>dimensions := [3]\<rparr>\<rparr>)
                (Some view_init) PyBUF_STRIDED = Aborts SegFault
          \<and> (case array_getbuffer u
                     (m1\<lparr>alloc := [False], self := (self m1)\<lparr>nd := 0, dimensions := [], strides := []\<rparr>\<rparr>)
                     (Some view_init) PyBUF_STRIDED of
                Aborts a \<Rightarrow> False
              | Returns (r2, v2, m2) \<Rightarrow>
                  r2 = 0 \<and> pyerr m2 = None \<and> heap m2 0 = None
                  \<and> buffer_info (self m2) =
                      Some \<lparr>cache_format = None, cache_nd = 0, cache_strides = NULL, cache_shape = NULL\<rparr>))"
  by (simp add: export_defs loop_simps PyErr_SetString_def malloc_def replicate_2)

text \<open>
  A failed \<^verbatim>\<open>realloc\<close> while the format string of a record grows is not reported
  either: the character is dropped, MemoryError stays set, and the export returns \<open>0\<close>
  and caches the shortened string (here the allocator answers success for the cache
  and for \<^verbatim>\<open>malloc(16)\<close>, then fails once).
\<close>

lemma format_realloc_failure_ignored:
  "(case array_getbuffer u ((machine_of (array_of (ubyte_double_record CHR ''|'')))\<lparr>alloc := [True, True, False]\<rparr>)
           (Some view_init) PyBUF_FORMAT of
      Aborts a \<Rightarrow> False
    | Returns (r, v, m) \<Rightarrow>
        r = 0 \<and> pyerr m = Some AllocationFailure
        \<and> buffer_format (descr (self m)) = Some (''T{B:a:xxxxxxxd:b}'' @ [CHR 0x00]))"
  by (simp add: export_defs encode_defs ubyte_double_record_def)








text \<open>
  C7. Claim: a snapshot that an outstanding view holds is never freed before that view
  is released; the cached snapshot storage is freed exactly once, at destruction.

  The file has no release entry point, so every view handed out stays outstanding. The
  first export hands out the snapshot in block 0. After one extent has changed, the
  second export frees block 0 (line 344) while the first view still points to it, and
  hands out block 1; both views count in \<open>ob_refcnt\<close>. Destruction then frees block 1
  only: block 0 was freed at the replacement, not at destruction.
\<close>

theorem C7_snapshot_freed_while_view_held:
  "(case array_getbuffer u (machine_of (array_of double_descr)) (Some view_init) PyBUF_STRIDED of
      Aborts a \<Rightarrow> False
    | Returns (r1, v1, m1) \<Rightarrow>
        r1 = 0 \<and> map_option view_shape v1 = Some (Ptr 0 0) \<and> heap m1 0 = Some [2, 8]
        \<and> (case array_getbuffer u (m1\<lparr>self := (self m1)\<lparr>dimensions := [3]\<rparr>\<rparr>) (Some view_init) PyBUF_STRIDED of
              Aborts a \<Rightarrow> False
            | Returns (r2, v2, m2) \<Rightarrow>
                r2 = 0 \<and> map_option view_shape v2 = Some (Ptr 1 0) \<and> heap m2 1 = Some [3, 8]
                \<and> heap m2 0 = None \<and> ob_refcnt (self m2) = ob_refcnt (array_of double_descr) + 2
                \<and> (case array_dealloc_buffer_info m2 of
                      Aborts a \<Rightarrow> False
                    | Returns m3 \<Rightarrow> heap m3 1 = None \<and> buffer_info (self m3) = None)))"
  by (simp add: export_defs loop_simps PyErr_SetString_def malloc_def array_dealloc_buffer_info_def replicate_2)

text \<open>
  C8. Claim: for every descriptor without fields of a supported type, encode produces a
  format string made of the byte-order marker (present exactly when the descriptor
  declares one of \<open><\<close>, \<open>>\<close>, \<open>=\<close>) and the code of the table.

  The bytes appended are those (\<open>supported_scalar_format\<close>), and for the one-character
  codes the translator returns \<open>0\<close>. For the codes appended with
  \<^verbatim>\<open>_append_str\<close> (\<open>Zf\<close>, \<open>Zd\<close>, \<open>Zg\<close>, \<open>Ns\<close>, \<open>Nw\<close>) the result
  is the indeterminate value that function hands back when it runs off its end: with a
  non-zero value the translator returns \<open>-1\<close>, with no error set, although the code was
  appended. This is the evaluation for a little-endian complex float and the value 1.
\<close>

theorem C8_complex_float_indeterminate_result:
  "buffer_format_string 1 (Descr NPY_CFLOAT CHR ''<'' 8 False None None) fmt_init 0 w_init
     = Returns (-1, \<lparr>s = Some ''<Zf'', allocated = 16, pos = 3\<rparr>, 0, w_init)"
  by (simp add: encode_defs)

text \<open>
  C9. Claim: the format string is computed and stored at most once per descriptor; after
  the first successful encode every later export that asks for the format returns the
  cached string without recomputation, so the two strings are identical.

  For two successful exports that ask for the format, the second on the state the first
  left: the descriptor holds a cached string after the first, both views carry it, the
  second call leaves the descriptor as it is, and the format step of the second call
  returns the cached string with the state (allocator and error indicator included)
  unchanged, whatever \<open>u'\<close> is: nothing is computed again.
\<close>

theorem C9_format_cached_once:
  assumes "array_getbuffer u m (Some v) fl = Returns (0, v1, m1)"
    and "fl AND PyBUF_FORMAT = PyBUF_FORMAT"
    and "array_getbuffer u' m1 (Some v') fl' = Returns (0, v2, m2)"
    and "fl' AND PyBUF_FORMAT = PyBUF_FORMAT"
  shows "\<exists>f. buffer_format (descr (self m1)) = Some f
           \<and> map_option view_format v1 = Some (Some f)
           \<and> map_option view_format v2 = Some (Some f)
           \<and> descr (self m2) = descr (self m1)
           \<and> (\<forall>vw. export_format u' m1 vw fl' = Returns (0, vw\<lparr>view_format := Some f\<rparr>, m1))"
proof -
  from assms(1) obtain c ma vb vc mb vd mc where
    a: "get_cache m = Returns (c, ma)"
       "export_format u ma vb fl = Returns (0, vc, mb)"
       "export_strided mb c vc fl = Returns (0, vd, mc)"
       "v1 = Some (vd\<lparr>view_obj := True\<rparr>)"
       "m1 = mc\<lparr>self := (self mc)\<lparr>ob_refcnt := ob_refcnt (self mc) + 1\<rparr>\<rparr>"
    by (rule array_getbuffer_success)
  from export_format_sets[OF a(2) assms(2)] obtain f where
    f: "buffer_format (descr (self mb)) = Some f" "view_format vc = Some f" by blast
  from export_strided_self(1,2)[OF a(3)] obtain bi where
    s1: "self mc = (self mb)\<lparr>buffer_info := bi\<rparr>" "view_format vd = view_format vc" by blast
  have d1: "descr (self m1) = descr (self mb)" using a(5) s1(1) by simp
  with f have f1: "buffer_format (descr (self m1)) = Some f" by simp
  from assms(3) obtain c2 ma2 vb2 vc2 mb2 vd2 mc2 where
    b: "get_cache m1 = Returns (c2, ma2)"
       "export_format u' ma2 vb2 fl' = Returns (0, vc2, mb2)"
       "export_strided mb2 c2 vc2 fl' = Returns (0, vd2, mc2)"
       "v2 = Some (vd2\<lparr>view_obj := True\<rparr>)"
       "m2 = mc2\<lparr>self := (self mc2)\<lparr>ob_refcnt := ob_refcnt (self mc2) + 1\<rparr>\<rparr>"
    by (rule array_getbuffer_success)
  have df: "descr (self ma2) = descr (self m1)"
    using get_cache_Returns(1)[OF b(1)] by simp
  with f1 have "export_format u' ma2 vb2 fl' = Returns (0, vb2\<lparr>view_format := Some f\<rparr>, ma2)"
    by (simp add: export_format_cached[OF _ assms(4)])
  with b(2) have c2: "vc2 = vb2\<lparr>view_format := Some f\<rparr>" "mb2 = ma2" by simp_all
  from export_strided_self(1,2)[OF b(3)] obtain bi2 where
    s2: "self mc2 = (self mb2)\<lparr>buffer_info := bi2\<rparr>" "view_format vd2 = view_format vc2" by blast
  have "descr (self m2) = descr (self m1)" using b(5) s2(1) c2(2) df by simp
  moreover have "map_option view_format v1 = Some (Some f)" using a(4) s1(2) f(2) by simp
  moreover have "map_option view_format v2 = Some (Some f)" using b(4) s2(2) c2(1) by simp
  moreover have "\<forall>vw. export_format u' m1 vw fl' = Returns (0, vw\<lparr>view_format := Some f\<rparr>, m1)"
    using f1 by (simp add: export_format_cached[OF _ assms(4)])
  ultimately show ?thesis using f1 by blast
qed

theorem C9_format_cached_once_witness:
  "array_getbuffer 0 (machine_of (array_of double_descr)) (Some view_init) PyBUF_FORMAT =
     Returns (0, Some (plain_view (Some (''=d'' @ [CHR 0x00]))),
       machine_of ((array_of double_cached)\<lparr>ob_refcnt := 2, buffer_info := Some empty_cache\<rparr>))
   \<and> array_getbuffer 1 (machine_of ((array_of double_cached)\<lparr>ob_refcnt := 2, buffer_info := Some empty_cache\<rparr>))
        (Some view_init) PyBUF_FORMAT =
     Returns (0, Some (plain_view (Some (''=d'' @ [CHR 0x00]))),
       machine_of ((array_of double_cached)\<lparr>ob_refcnt := 3, buffer_info := Some empty_cache\<rparr>))
   \<and> buffer_format (descr (self (machine_of ((array_of double_cached)\<lparr>ob_refcnt := 2, buffer_info := Some empty_cache\<rparr>))))
       = Some (''=d'' @ [CHR 0x00])"
proof -
  let ?m1 = "machine_of ((array_of double_cached)\<lparr>ob_refcnt := 2, buffer_info := Some empty_cache\<rparr>)"
  let ?m2 = "machine_of ((array_of double_cached)\<lparr>ob_refcnt := 3, buffer_info := Some empty_cache\<rparr>)"
  let ?v = "Some (plain_view (Some (''=d'' @ [CHR 0x00])))"
  have h1: "array_getbuffer 0 (machine_of (array_of double_descr)) (Some view_init) PyBUF_FORMAT
              = Returns (0, ?v, ?m1)"
    by (simp add: export_defs encode_defs double_cached_def empty_cache_def plain_view_def)
  have h2: "array_getbuffer 1 ?m1 (Some view_init) PyBUF_FORMAT = Returns (0, ?v, ?m2)"
    by (simp add: export_defs encode_defs double_cached_def empty_cache_def plain_view_def)
  have f: "PyBUF_FORMAT AND PyBUF_FORMAT = PyBUF_FORMAT" by simp
  from C9_format_cached_once[OF h1 f h2 f] obtain g where
    "buffer_format (descr (self ?m1)) = Some g" "map_option view_format ?v = Some (Some g)"
    by blast
  then have "buffer_format (descr (self ?m1)) = Some (''=d'' @ [CHR 0x00])"
    by (simp add: plain_view_def)
  with h1 h2 show ?thesis by simp
qed



end
